theory Spec2Isabelle
  imports Main "HOL-Library.Word"
begin

section \<open>filefitness: integrity checks of .fit and .gpx activity files\<close>

text \<open>
  A shallow embedding of \<^verbatim>\<open>filefitness.py\<close>. Exceptions are values of \<open>py_exc\<close>, a call
  that may raise returns \<open>py_exc + 'a\<close> (\<open>Inl\<close> the exception), and the module's logger
  is a list of emitted lines that every logging function threads through. What the program
  gets from outside itself (the fitparse and gpxpy parsers, the builtins \<^verbatim>\<open>bytes.decode\<close>,
  \<^verbatim>\<open>int\<close> and \<^verbatim>\<open>open\<close>, \<^verbatim>\<open>hashlib.md5\<close>) is a field of the record \<open>env\<close>: the
  theorems hold for every behaviour of these.
\<close>

subsection \<open>Exceptions and the logger\<close>

text \<open>
  The exception classes the source names, each with its message, and \<open>OtherException\<close> for
  every class it does not name. In fitparse, \<^verbatim>\<open>FitCRCError\<close>, \<^verbatim>\<open>FitHeaderError\<close> and
  \<^verbatim>\<open>FitEOFError\<close> are distinct subclasses of \<^verbatim>\<open>FitParseError\<close>.
\<close>

datatype py_exc =
    ActivityDefective string
  | FitParseError string
  | FitCRCError string
  | FitHeaderError string
  | FitEOFError string
  | GPXXMLSyntaxException string
  | ZeroDivisionError
  | TypeError
  | ValueError
  | UnicodeDecodeError
  | OtherException string

datatype level = DEBUG | INFO | ERROR

type_synonym log = "(level \<times> string) list"

text \<open>\<^verbatim>\<open>LOGLEVEL = 'DEBUG'\<close>: every line is emitted. The timestamp is not modelled.\<close>

definition LOG_debug :: "string \<Rightarrow> log \<Rightarrow> log" where
  "LOG_debug msg lg = lg @ [(DEBUG, msg)]"

definition LOG_info :: "string \<Rightarrow> log \<Rightarrow> log" where
  "LOG_info msg lg = lg @ [(INFO, msg)]"

definition LOG_error :: "string \<Rightarrow> log \<Rightarrow> log" where
  "LOG_error msg lg = lg @ [(ERROR, msg)]"

subsection \<open>Strings\<close>

text \<open>
  A Python \<^verbatim>\<open>str\<close> is modelled as a \<open>string\<close> whose characters are the code points below
  256. On these, \<^verbatim>\<open>str.lower\<close> maps \<open>A..Z\<close> and the Latin-1 capitals (192 to 222 but the
  multiplication sign 215) to the code point 32 above, and keeps the rest.
\<close>

definition lower_char :: "char \<Rightarrow> char" where
  "lower_char c =
     (let n = (of_char c :: nat)
      in if (65 \<le> n \<and> n \<le> 90) \<or> (192 \<le> n \<and> n \<le> 222 \<and> n \<noteq> 215)
         then char_of (n + 32) else c)"

definition lower :: "string \<Rightarrow> string" where
  "lower s = map lower_char s"

text \<open>\<^verbatim>\<open>s.endswith(suf)\<close>.\<close>

definition endswith :: "string \<Rightarrow> string \<Rightarrow> bool" where
  "endswith s suf = (length suf \<le> length s \<and> drop (length s - length suf) s = suf)"

text \<open>\<^verbatim>\<open>sub in s\<close>: \<open>sub\<close> occurs in \<open>s\<close> as a contiguous substring.\<close>

fun contains :: "string \<Rightarrow> string \<Rightarrow> bool" where
  "contains sub [] = (sub = [])"
| "contains sub (c # cs) = (take (length sub) (c # cs) = sub \<or> contains sub cs)"

text \<open>\<^verbatim>\<open>s.split(sep)\<close> for a one-character separator: never the empty list.\<close>

fun split :: "char \<Rightarrow> string \<Rightarrow> string list" where
  "split sep [] = [[]]"
| "split sep (c # cs) =
     (if c = sep then [] # split sep cs
      else (case split sep cs of
              w # ws \<Rightarrow> (c # w) # ws
            | [] \<Rightarrow> [[c]]))"

text \<open>\<^verbatim>\<open>str(n)\<close> for an integer: decimal digits, a minus sign when negative.\<close>

fun str_nat :: "nat \<Rightarrow> string" where
  "str_nat n =
     (if n < 10 then [char_of (48 + n)]
      else str_nat (n div 10) @ [char_of (48 + n mod 10)])"

declare str_nat.simps [simp del]

definition str_int :: "int \<Rightarrow> string" where
  "str_int i = (if i < 0 then CHR ''-'' # str_nat (nat (- i)) else str_nat (nat i))"

subsection \<open>The Activity record\<close>

type_synonym byte = "8 word"

text \<open>
  \<^verbatim>\<open>io.BytesIO\<close>: the buffer, the read position, and whether the object has been closed.
  \<^verbatim>\<open>getvalue()\<close> returns the whole buffer wherever the position is and moves nothing; on
  a closed object it raises ValueError.
\<close>

record bytesio =
  buffer :: "byte list"
  position :: nat
  closed :: bool

definition getvalue :: "bytesio \<Rightarrow> py_exc + byte list" where
  "getvalue io = (if closed io then Inl ValueError else Inr (buffer io))"

record activity =
  name :: string
  fileobj :: bytesio

text \<open>\<^verbatim>\<open>self.name.split('.')[-1]\<close>. The list is never empty, so the index never raises.\<close>

definition extension :: "activity \<Rightarrow> string" where
  "extension a = last (split CHR ''.'' (name a))"

subsection \<open>What the libraries hand to the program\<close>

text \<open>
  fitparse: a field of a record message has a \<^verbatim>\<open>name\<close> and a \<^verbatim>\<open>value\<close>; the value of
  \<^verbatim>\<open>power\<close> and of \<^verbatim>\<open>heart_rate\<close> is an integer, or \<^verbatim>\<open>None\<close> when the file holds the
  invalid marker. \<^verbatim>\<open>get_messages('record')\<close> is a generator: it yields the record messages
  it can parse and may then raise.
\<close>

record field_data =
  field_name :: string
  field_value :: "int option"

type_synonym record_message = "field_data list"

record fit_messages =
  yielded :: "record_message list"
  raised :: "py_exc option"

text \<open>
  gpxpy: a document has tracks, a track segments, a segment points, and a point its
  extension elements (ElementTree elements: tag, text, child elements).
\<close>

datatype element = Element (tag: string) (text_of: "string option") (children: "element list")

datatype point = Point (extensions: "element list")

datatype segment = Segment (points: "point list")

datatype track = Track (segments: "segment list")

datatype gpx = GPX (tracks: "track list")

text \<open>
  The outside of the program. \<open>'doc\<close> is the decoded text of a .gpx file, which the program
  only passes from \<^verbatim>\<open>decode('utf-8')\<close> to \<^verbatim>\<open>gpxpy.parse\<close>.
  \<^item> \<open>FitFile\<close>: \<^verbatim>\<open>FitFile(fileobj)\<close> on a file object: the exception of the constructor,
    or the record messages \<^verbatim>\<open>get_messages('record')\<close> will produce;
  \<^item> \<open>FitFile_closes\<close>: whether the file object has been closed once \<^verbatim>\<open>check_fit\<close> is
    left (fitparse closes the file it was given when its FitFile object is finalised);
  \<^item> \<open>decode_utf8\<close>, \<open>gpxpy_parse\<close>, \<open>py_int\<close> (the builtin \<^verbatim>\<open>int\<close> on an element's text),
    \<open>md5_hexdigest\<close> (\<^verbatim>\<open>hashlib.md5(b).hexdigest()\<close>), \<open>read_file\<close>
    (\<^verbatim>\<open>open(file, 'rb').read()\<close>), \<open>cpu_count\<close>;
  \<^item> \<open>float_round\<close>: \<^verbatim>\<open>round(s / n)\<close> where the double quotient need not be exact, see
    \<open>round_div\<close>.
\<close>

record 'doc env =
  FitFile :: "bytesio \<Rightarrow> py_exc + fit_messages"
  FitFile_closes :: "bytesio \<Rightarrow> bool"
  decode_utf8 :: "byte list \<Rightarrow> py_exc + 'doc"
  gpxpy_parse :: "'doc \<Rightarrow> py_exc + gpx"
  py_int :: "string option \<Rightarrow> py_exc + int"
  float_round :: "int \<Rightarrow> nat \<Rightarrow> py_exc + int"
  md5_hexdigest :: "byte list \<Rightarrow> string"
  read_file :: "string \<Rightarrow> py_exc + byte list"
  cpu_count :: nat


subsection \<open>Averages\<close>

text \<open>\<^verbatim>\<open>sum(xs)\<close> from 0, left to right; adding \<^verbatim>\<open>None\<close> to an integer is a TypeError.\<close>

fun py_sum :: "int \<Rightarrow> int option list \<Rightarrow> py_exc + int" where
  "py_sum acc [] = Inr acc"
| "py_sum acc (None # xs) = Inl TypeError"
| "py_sum acc (Some x # xs) = py_sum (acc + x) xs"

text \<open>The integer nearest to \<open>s / n\<close>, the even one of the two at a tie (\<open>n > 0\<close>).\<close>

definition round_half_even :: "int \<Rightarrow> nat \<Rightarrow> int" where
  "round_half_even s n =
     (let q = s div int n; r = s mod int n
      in if 2 * r < int n then q
         else if int n < 2 * r then q + 1
         else if even q then q else q + 1)"

text \<open>
  \<^verbatim>\<open>round(s / n)\<close> for an integer \<open>s\<close> and a length \<open>n\<close>. Division by 0 raises. Python
  divides into a double (correctly rounded) and rounds that half to even; below \<open>2 ^ 50\<close>
  the double cannot sit on a tie that the exact quotient misses, and the result is
  \<open>round_half_even\<close>. Beyond, the result (or the OverflowError) is \<open>float_round\<close>'s.
\<close>

definition round_div :: "'doc env \<Rightarrow> int \<Rightarrow> nat \<Rightarrow> py_exc + int" where
  "round_div env s n =
     (if n = 0 then Inl ZeroDivisionError
      else if \<bar>s\<bar> < 2 ^ 50 then Inr (round_half_even s n)
      else float_round env s n)"

text \<open>\<^verbatim>\<open>round(sum(xs) / len(xs))\<close>: the sum is evaluated first.\<close>

definition average :: "'doc env \<Rightarrow> int option list \<Rightarrow> py_exc + int" where
  "average env xs =
     (case py_sum 0 xs of
        Inl e \<Rightarrow> Inl e
      | Inr s \<Rightarrow> round_div env s (length xs))"

text \<open>The line both checkers log.\<close>

definition averages_line :: "string \<Rightarrow> int \<Rightarrow> int \<Rightarrow> string" where
  "averages_line nm avg_power avg_hr =
     nm @ '' Average Power: '' @ str_int avg_power @ '', Average HR: '' @ str_int avg_hr"

text \<open>
  The two averages and the \<^verbatim>\<open>LOG.info\<close> that end the \<^verbatim>\<open>try\<close> block of both checkers:
  the first exception ends the block before the line is logged.
\<close>

definition log_averages ::
  "'doc env \<Rightarrow> string \<Rightarrow> int option list \<Rightarrow> int option list \<Rightarrow> log \<Rightarrow> (py_exc + unit) \<times> log" where
  "log_averages env nm power_readings hr_readings lg =
     (case average env power_readings of
        Inl e \<Rightarrow> (Inl e, lg)
      | Inr avg_power \<Rightarrow>
          (case average env hr_readings of
             Inl e \<Rightarrow> (Inl e, lg)
           | Inr avg_hr \<Rightarrow> (Inr (), LOG_info (averages_line nm avg_power avg_hr) lg)))"

subsection \<open>\<^verbatim>\<open>check_gpx\<close>\<close>

text \<open>A loop whose body may raise: the first exception ends it.\<close>

fun for_each :: "('a \<Rightarrow> 's \<Rightarrow> py_exc + 's) \<Rightarrow> 'a list \<Rightarrow> 's \<Rightarrow> py_exc + 's" where
  "for_each body [] s = Inr s"
| "for_each body (x # xs) s =
     (case body x s of
        Inl e \<Rightarrow> Inl e
      | Inr s' \<Rightarrow> for_each body xs s')"

definition schema :: string where
  "schema = ''{http://www.garmin.com/xmlschemas/TrackPointExtension/v1}''"

text \<open>The state of the loops: \<^verbatim>\<open>(power_readings, hr_readings)\<close>.\<close>

type_synonym readings = "int list \<times> int list"

definition gpx_kid :: "'doc env \<Rightarrow> element \<Rightarrow> readings \<Rightarrow> py_exc + readings" where
  "gpx_kid env kid rd =
     (if tag kid = schema @ ''hr''
      then (case py_int env (text_of kid) of
              Inl e \<Rightarrow> Inl e
            | Inr v \<Rightarrow> Inr (fst rd, snd rd @ [v]))
      else Inr rd)"

definition gpx_extension :: "'doc env \<Rightarrow> element \<Rightarrow> readings \<Rightarrow> py_exc + readings" where
  "gpx_extension env ext rd =
     (case (if tag ext = ''power''
            then (case py_int env (text_of ext) of
                    Inl e \<Rightarrow> Inl e
                  | Inr v \<Rightarrow> Inr (fst rd @ [v], snd rd))
            else Inr rd) of
        Inl e \<Rightarrow> Inl e
      | Inr rd' \<Rightarrow>
          if tag ext = schema @ ''TrackPointExtension''
          then for_each (gpx_kid env) (children ext) rd'
          else Inr rd')"

definition gpx_point :: "'doc env \<Rightarrow> string \<Rightarrow> point \<Rightarrow> readings \<Rightarrow> py_exc + readings" where
  "gpx_point env nm pt rd =
     (if contains ''ride'' (lower nm)
      then for_each (gpx_extension env) (extensions pt) rd
      else Inr rd)"

definition gpx_segment :: "'doc env \<Rightarrow> string \<Rightarrow> segment \<Rightarrow> readings \<Rightarrow> py_exc + readings" where
  "gpx_segment env nm sg rd = for_each (gpx_point env nm) (points sg) rd"

definition gpx_track :: "'doc env \<Rightarrow> string \<Rightarrow> track \<Rightarrow> readings \<Rightarrow> py_exc + readings" where
  "gpx_track env nm tr rd = for_each (gpx_segment env nm) (segments tr) rd"

text \<open>The three nested loops over \<^verbatim>\<open>gpx.tracks\<close>, from the two empty lists.\<close>

definition gpx_readings :: "'doc env \<Rightarrow> string \<Rightarrow> gpx \<Rightarrow> py_exc + readings" where
  "gpx_readings env nm g = for_each (gpx_track env nm) (tracks g) ([], [])"

text \<open>\<^verbatim>\<open>gpxpy.parse(gpx_file.fileobj.getvalue().decode('utf-8'))\<close>.\<close>

definition gpx_load :: "'doc env \<Rightarrow> activity \<Rightarrow> py_exc + gpx" where
  "gpx_load env gpx_file =
     (case getvalue (fileobj gpx_file) of
        Inl e \<Rightarrow> Inl e
      | Inr bytes \<Rightarrow>
          (case decode_utf8 env bytes of
             Inl e \<Rightarrow> Inl e
           | Inr doc \<Rightarrow> gpxpy_parse env doc))"

text \<open>The second \<^verbatim>\<open>try\<close> block, before its \<^verbatim>\<open>except ZeroDivisionError\<close>.\<close>

definition gpx_body :: "'doc env \<Rightarrow> activity \<Rightarrow> gpx \<Rightarrow> log \<Rightarrow> (py_exc + unit) \<times> log" where
  "gpx_body env gpx_file g lg =
     (case gpx_readings env (name gpx_file) g of
        Inl e \<Rightarrow> (Inl e, lg)
      | Inr rd \<Rightarrow> log_averages env (name gpx_file) (map Some (fst rd)) (map Some (snd rd)) lg)"

definition check_gpx :: "'doc env \<Rightarrow> activity \<Rightarrow> log \<Rightarrow> (py_exc + unit) \<times> log" where
  "check_gpx env gpx_file lg =
     (case gpx_load env gpx_file of
        Inl (GPXXMLSyntaxException err) \<Rightarrow>
          (Inl (ActivityDefective (name gpx_file @ '' - '' @ err)), lg)
      | Inl e \<Rightarrow> (Inl e, lg)
      | Inr g \<Rightarrow>
          (case gpx_body env gpx_file g lg of
             (Inl ZeroDivisionError, lg') \<Rightarrow> (Inr (), lg')
           | r \<Rightarrow> r))"

subsection \<open>\<^verbatim>\<open>check_fit\<close>\<close>

text \<open>The loop body over the fields of one record message.\<close>

definition fit_field :: "field_data \<Rightarrow> int option list \<times> int option list
    \<Rightarrow> int option list \<times> int option list" where
  "fit_field record_data rd =
     (if field_name record_data = ''power'' then (fst rd @ [field_value record_data], snd rd)
      else if field_name record_data = ''heart_rate''
        then (fst rd, snd rd @ [field_value record_data])
      else rd)"

definition fit_readings :: "record_message list \<Rightarrow> int option list \<times> int option list" where
  "fit_readings msgs = fold (\<lambda>record. fold fit_field record) msgs ([], [])"

text \<open>
  The second \<^verbatim>\<open>try\<close> block, before its \<^verbatim>\<open>except\<close>: the loop over the generator ends with
  the exception the generator raises, if any; the averages follow.
\<close>

definition fit_body :: "'doc env \<Rightarrow> activity \<Rightarrow> fit_messages \<Rightarrow> log \<Rightarrow> (py_exc + unit) \<times> log" where
  "fit_body env fit_file fitfile lg =
     (let rd = fit_readings (yielded fitfile)
      in case raised fitfile of
           Some e \<Rightarrow> (Inl e, lg)
         | None \<Rightarrow> log_averages env (name fit_file) (fst rd) (snd rd) lg)"

text \<open>
  \<^verbatim>\<open>except (FitCRCError, FitParseError, FitHeaderError, FitEOFError) as err\<close>: the message
  of the exception when the clause catches it.
\<close>

fun fit_error :: "py_exc \<Rightarrow> string option" where
  "fit_error (FitCRCError m) = Some m"
| "fit_error (FitParseError m) = Some m"
| "fit_error (FitHeaderError m) = Some m"
| "fit_error (FitEOFError m) = Some m"
| "fit_error _ = None"

definition check_fit :: "'doc env \<Rightarrow> activity \<Rightarrow> log \<Rightarrow> (py_exc + unit) \<times> log" where
  "check_fit env fit_file lg =
     (case FitFile env (fileobj fit_file) of
        Inl (FitHeaderError m) \<Rightarrow> (Inl (ActivityDefective (name fit_file @ '' truncated'')), lg)
      | Inl e \<Rightarrow> (Inl e, lg)
      | Inr fitfile \<Rightarrow>
          (case fit_body env fit_file fitfile lg of
             (Inl e, lg') \<Rightarrow>
               (case fit_error e of
                  Some m \<Rightarrow> (Inl (ActivityDefective m), lg')
                | None \<Rightarrow> (Inl e, lg'))
           | r \<Rightarrow> r))"


subsection \<open>\<^verbatim>\<open>integritycheck\<close> and \<^verbatim>\<open>main\<close>\<close>

text \<open>The \<^verbatim>\<open>try\<close> block: the checker of the extension, or nothing.\<close>

definition dispatch :: "'doc env \<Rightarrow> activity \<Rightarrow> log \<Rightarrow> (py_exc + unit) \<times> log" where
  "dispatch env activity lg =
     (if extension activity = ''fit'' then check_fit env activity lg
      else if extension activity = ''gpx'' then check_gpx env activity lg
      else (Inr (), lg))"

definition integritycheck :: "'doc env \<Rightarrow> activity \<Rightarrow> log \<Rightarrow> (py_exc + bool) \<times> log" where
  "integritycheck env activity lg =
     (case dispatch env activity lg of
        (Inl (ActivityDefective err), lg') \<Rightarrow>
          (Inr False, LOG_error (name activity @ '' '' @ err) lg')
      | (Inl e, lg') \<Rightarrow> (Inl e, lg')
      | (Inr u, lg') \<Rightarrow> (Inr True, LOG_info (name activity @ '' Integrity OK'') lg'))"

text \<open>The first loop of \<^verbatim>\<open>main\<close>: the files read into \<^verbatim>\<open>streams\<close>.\<close>

definition eligible :: "string \<Rightarrow> bool" where
  "eligible file = (endswith (lower file) ''.fit'' \<or> endswith (lower file) ''.gpx'')"

fun read_streams ::
  "'doc env \<Rightarrow> string list \<Rightarrow> activity list \<Rightarrow> log \<Rightarrow> (py_exc + activity list) \<times> log" where
  "read_streams env [] streams lg = (Inr streams, lg)"
| "read_streams env (file # targets) streams lg =
     (if \<not> eligible file
      then read_streams env targets streams (LOG_debug (''File skipped: '' @ file) lg)
      else (case read_file env file of
              Inl e \<Rightarrow> (Inl e, lg)
            | Inr bytes \<Rightarrow>
                read_streams env targets
                  (streams @
                     [\<lparr>name = file,
                       fileobj = \<lparr>buffer = bytes, position = 0, closed = False\<rparr>\<rparr>]) lg))"

text \<open>The second loop: an exception of \<^verbatim>\<open>integritycheck\<close> ends it, and \<^verbatim>\<open>main\<close>.\<close>

fun check_streams :: "'doc env \<Rightarrow> activity list \<Rightarrow> log \<Rightarrow> (py_exc + unit) \<times> log" where
  "check_streams env [] lg = (Inr (), lg)"
| "check_streams env (x # streams) lg =
     (case integritycheck env x lg of
        (Inl e, lg') \<Rightarrow> (Inl e, lg')
      | (Inr verdict, lg') \<Rightarrow> check_streams env streams lg')"

text \<open>The worker pool is created and never used; it is not modelled.\<close>

definition main :: "'doc env \<Rightarrow> string list \<Rightarrow> log \<Rightarrow> (py_exc + unit) \<times> log" where
  "main env targets lg =
     (case read_streams env targets [] (LOG_debug (''CPU count: '' @ str_nat (cpu_count env)) lg) of
        (Inl e, lg') \<Rightarrow> (Inl e, lg')
      | (Inr streams, lg') \<Rightarrow> check_streams env streams lg')"

subsection \<open>What \<^verbatim>\<open>main\<close> is expected to build and to log\<close>

text \<open>
  The Activity of a path whose file can be read: the path as the name, the bytes of the
  file in a fresh \<^verbatim>\<open>BytesIO\<close>.
\<close>

definition activity_of :: "'doc env \<Rightarrow> string \<Rightarrow> activity" where
  "activity_of env f =
     \<lparr>name = f,
      fileobj = \<lparr>buffer = (case read_file env f of Inr bytes \<Rightarrow> bytes | Inl e \<Rightarrow> []),
                 position = 0, closed = False\<rparr>\<rparr>"

definition skipped_note :: "string \<Rightarrow> level \<times> string" where
  "skipped_note f = (DEBUG, ''File skipped: '' @ f)"

subsection \<open>Sample inputs\<close>

text \<open>
  Concrete surroundings for the examples. \<open>plain_int\<close> is the builtin \<^verbatim>\<open>int\<close> where the
  examples use it: on \<^verbatim>\<open>None\<close> (TypeError), on a short string of ASCII digits (its decimal
  value) and on a string with a character \<^verbatim>\<open>int\<close> never accepts (ValueError).
\<close>

definition is_digit :: "char \<Rightarrow> bool" where
  "is_digit c = (48 \<le> (of_char c :: nat) \<and> (of_char c :: nat) \<le> 57)"

definition plain_int :: "string option \<Rightarrow> py_exc + int" where
  "plain_int t =
     (case t of
        None \<Rightarrow> Inl TypeError
      | Some s \<Rightarrow>
          if s \<noteq> [] \<and> list_all is_digit s
          then Inr (int (foldl (\<lambda>acc c. 10 * acc + (of_char c - 48)) 0 s))
          else Inl ValueError)"

text \<open>
  Stand-ins for the libraries, so that an example shows the path of the program for one
  outcome. The .fit parser is fitparse on a file without the \<^verbatim>\<open>.FIT\<close> signature: the
  constructor asks for the 12 bytes of the header, raises FitEOFError when the file is
  shorter and FitHeaderError when the signature is not there; a closed file cannot be
  read. The .gpx parser returns a document without tracks. Every file on disk is
  \<open>placeholder\<close>.
\<close>

definition placeholder :: "byte list" where
  "placeholder = replicate 12 0"

definition sample_env :: "unit env" where
  "sample_env =
     \<lparr>FitFile = (\<lambda>io.
        if closed io then Inl ValueError
        else if length (buffer io) < 12
          then Inl (FitEOFError (''Tried to read 12 bytes from .FIT file but got '' @
                  str_nat (length (buffer io))))
        else Inl (FitHeaderError ''Invalid .FIT File Header'')),
      FitFile_closes = (\<lambda>io. True),
      decode_utf8 = (\<lambda>b. Inr ()),
      gpxpy_parse = (\<lambda>d. Inr (GPX [])),
      py_int = plain_int,
      float_round = (\<lambda>s n. Inl (OtherException ''OverflowError'')),
      md5_hexdigest = (\<lambda>b. str_nat (length b)),
      read_file = (\<lambda>f. Inr placeholder),
      cpu_count = 4\<rparr>"

text \<open>The stand-ins with a .fit parser that yields the given record messages.\<close>

definition fit_env :: "record_message list \<Rightarrow> py_exc option \<Rightarrow> unit env" where
  "fit_env msgs err = sample_env\<lparr>FitFile := (\<lambda>io. Inr \<lparr>yielded = msgs, raised = err\<rparr>)\<rparr>"

text \<open>The stand-ins with a .gpx parser that returns the given outcome.\<close>

definition gpx_env :: "py_exc + gpx \<Rightarrow> unit env" where
  "gpx_env outcome = sample_env\<lparr>gpxpy_parse := (\<lambda>d. outcome)\<rparr>"

text \<open>The Activity that \<^verbatim>\<open>main\<close> builds for a file of that name.\<close>

definition activity_named :: "string \<Rightarrow> activity" where
  "activity_named nm =
     \<lparr>name = nm, fileobj = \<lparr>buffer = placeholder, position = 0, closed = False\<rparr>\<rparr>"

text \<open>A zero-length .fit file.\<close>

definition empty_fit :: activity where
  "empty_fit = \<lparr>name = ''empty.fit'', fileobj = \<lparr>buffer = [], position = 0, closed = False\<rparr>\<rparr>"

text \<open>Record messages with power 100, 150, 200 and heart rate 120, 121.\<close>

definition ride_messages :: "record_message list" where
  "ride_messages =
     [[\<lparr>field_name = ''timestamp'', field_value = Some 1000\<rparr>,
       \<lparr>field_name = ''power'', field_value = Some 100\<rparr>,
       \<lparr>field_name = ''heart_rate'', field_value = Some 120\<rparr>],
      [\<lparr>field_name = ''power'', field_value = Some 150\<rparr>,
       \<lparr>field_name = ''heart_rate'', field_value = Some 121\<rparr>],
      [\<lparr>field_name = ''power'', field_value = Some 200\<rparr>]]"

text \<open>Record messages of a ride recorded without a power meter.\<close>

definition no_power_messages :: "record_message list" where
  "no_power_messages =
     [[\<lparr>field_name = ''heart_rate'', field_value = Some 120\<rparr>],
      [\<lparr>field_name = ''heart_rate'', field_value = Some 122\<rparr>]]"

text \<open>A track of one point with the given extension elements.\<close>

definition one_point :: "element list \<Rightarrow> gpx" where
  "one_point exts = GPX [Track [Segment [Point exts]]]"

definition power_el :: "string \<Rightarrow> element" where
  "power_el t = Element ''power'' (Some t) []"

definition hr_el :: "string \<Rightarrow> element" where
  "hr_el t =
     Element (schema @ ''TrackPointExtension'') None [Element (schema @ ''hr'') (Some t) []]"

text \<open>Three points: power 100, 150, 200 and heart rate 120, 121.\<close>

definition ride_gpx :: gpx where
  "ride_gpx =
     GPX [Track [Segment [Point [power_el ''100'', hr_el ''120''],
                          Point [power_el ''150'', hr_el ''121''],
                          Point [power_el ''200'']]]]"

text \<open>The stand-ins with a decoder that rejects the bytes.\<close>

definition undecodable_env :: "unit env" where
  "undecodable_env = sample_env\<lparr>decode_utf8 := (\<lambda>b. Inl UnicodeDecodeError)\<rparr>"

text \<open>The message gpxpy gives for a closing tag that does not match.\<close>

definition mismatched_tag :: string where
  "mismatched_tag = ''Error parsing XML: mismatched tag: line 1, column 13''"

section \<open>Properties\<close>

subsection \<open>The evaluator\<close>

lemma split_not_Nil: "split sep s \<noteq> []"
  by (induction s) (auto split: list.splits)

lemma integritycheck_defective:
  "dispatch env a lg = (Inl (ActivityDefective m), lg') \<Longrightarrow>
   integritycheck env a lg = (Inr False, lg' @ [(ERROR, name a @ '' '' @ m)])"
  by (simp add: integritycheck_def LOG_error_def)

lemma integritycheck_ok:
  "dispatch env a lg = (Inr u, lg') \<Longrightarrow>
   integritycheck env a lg = (Inr True, lg' @ [(INFO, name a @ '' Integrity OK'')])"
  by (simp add: integritycheck_def LOG_info_def)

lemma integritycheck_raises:
  "dispatch env a lg = (Inl e, lg') \<Longrightarrow> \<forall>m. e \<noteq> ActivityDefective m \<Longrightarrow>
   integritycheck env a lg = (Inl e, lg')"
  by (cases e) (simp_all add: integritycheck_def)

lemma integritycheck_not_defective:
  "fst (integritycheck env a lg) \<noteq> Inl (ActivityDefective m)"
  by (simp add: integritycheck_def split: prod.splits sum.splits py_exc.splits)

lemma check_fit_header:
  "FitFile env (fileobj a) = Inl (FitHeaderError d) \<Longrightarrow>
   check_fit env a lg = (Inl (ActivityDefective (name a @ '' truncated'')), lg)"
  by (simp add: check_fit_def)

lemma check_gpx_syntax:
  "gpx_load env a = Inl (GPXXMLSyntaxException err) \<Longrightarrow>
   check_gpx env a lg = (Inl (ActivityDefective (name a @ '' - '' @ err)), lg)"
  by (simp add: check_gpx_def)

lemma extension_RIDE_FIT: "extension (activity_named ''RIDE.FIT'') = ''FIT''"
  by (simp add: extension_def activity_named_def)

lemma extension_ride1_fit: "extension (activity_named ''ride1.fit'') = ''fit''"
  by (simp add: extension_def activity_named_def)

lemma extension_course_gpx: "extension (activity_named ''course.gpx'') = ''gpx''"
  by (simp add: extension_def activity_named_def)

lemma check_fit_sample:
  "check_fit sample_env (activity_named ''ride1.fit'') [] =
     (Inl (ActivityDefective ''ride1.fit truncated''), [])"
  by (simp add: check_fit_def sample_env_def activity_named_def placeholder_def)

lemma check_fit_ride_sample:
  "check_fit (fit_env ride_messages None) (activity_named ''ride1.fit'') [] =
     (Inr (), [(INFO, ''ride1.fit Average Power: 150, Average HR: 120'')])"
  by code_simp

lemma check_gpx_sample:
  "check_gpx sample_env (activity_named ''course.gpx'') [] = (Inr (), [])"
  by (simp add: check_gpx_def gpx_load_def gpx_body_def gpx_readings_def log_averages_def
      average_def round_div_def getvalue_def sample_env_def activity_named_def)

text \<open>
  C3. \<^verbatim>\<open>integritycheck\<close> runs \<^verbatim>\<open>check_fit\<close> on the extension \<^verbatim>\<open>fit\<close> and
  \<^verbatim>\<open>check_gpx\<close> on \<^verbatim>\<open>gpx\<close>. When that checker raises ActivityDefective, the evaluator
  appends one error line, the file name followed by the detail, and returns False; when
  the checker returns, it appends the line "name Integrity OK" with the name as given and
  returns True.
\<close>

theorem integritycheck_verdict:
  "(extension a = ''fit'' \<and> check_fit env a lg = (Inl (ActivityDefective m), lg') \<longrightarrow>
      integritycheck env a lg = (Inr False, lg' @ [(ERROR, name a @ '' '' @ m)])) \<and>
   (extension a = ''gpx'' \<and> check_gpx env a lg = (Inl (ActivityDefective m), lg') \<longrightarrow>
      integritycheck env a lg = (Inr False, lg' @ [(ERROR, name a @ '' '' @ m)])) \<and>
   (extension a = ''fit'' \<and> check_fit env a lg = (Inr (), lg') \<longrightarrow>
      integritycheck env a lg = (Inr True, lg' @ [(INFO, name a @ '' Integrity OK'')])) \<and>
   (extension a = ''gpx'' \<and> check_gpx env a lg = (Inr (), lg') \<longrightarrow>
      integritycheck env a lg = (Inr True, lg' @ [(INFO, name a @ '' Integrity OK'')]))"
proof -
  have fit: "extension a = ''fit'' \<Longrightarrow> dispatch env a lg = check_fit env a lg"
    by (simp add: dispatch_def)
  have gpx: "extension a = ''gpx'' \<Longrightarrow> dispatch env a lg = check_gpx env a lg"
    by (simp add: dispatch_def)
  show ?thesis
    using fit gpx integritycheck_defective [of env a lg m lg']
      integritycheck_ok [of env a lg "()" lg']
    by auto
qed

theorem integritycheck_verdict_witness:
  "integritycheck sample_env (activity_named ''ride1.fit'') [] =
     (Inr False, [(ERROR, ''ride1.fit ride1.fit truncated'')]) \<and>
   integritycheck sample_env (activity_named ''course.gpx'') [] =
     (Inr True, [(INFO, ''course.gpx Integrity OK'')]) \<and>
   integritycheck (fit_env ride_messages None) (activity_named ''ride1.fit'') [] =
     (Inr True, [(INFO, ''ride1.fit Average Power: 150, Average HR: 120''),
                 (INFO, ''ride1.fit Integrity OK'')])"
  using integritycheck_verdict
      [of "activity_named ''ride1.fit''" sample_env "[]" "''ride1.fit truncated''" "[]"]
    integritycheck_verdict [of "activity_named ''course.gpx''" sample_env "[]" "''x''" "[]"]
    integritycheck_verdict [of "activity_named ''ride1.fit''" "fit_env ride_messages None" "[]"
      "''x''" "[(INFO, ''ride1.fit Average Power: 150, Average HR: 120'')]"]
    extension_ride1_fit extension_course_gpx check_fit_sample check_gpx_sample
    check_fit_ride_sample
  by (simp add: activity_named_def)

text \<open>
  C9. An Activity whose extension is neither \<^verbatim>\<open>fit\<close> nor \<^verbatim>\<open>gpx\<close> as written (an
  upper-case \<^verbatim>\<open>.FIT\<close>, say) reaches no checker: the \<^verbatim>\<open>try\<close> block does nothing,
  whatever the parsers would have said, and the evaluator still logs "name Integrity OK"
  and returns True.
\<close>

theorem other_extension_passes_unchecked:
  assumes "extension a \<noteq> ''fit''" and "extension a \<noteq> ''gpx''"
  shows "dispatch env a lg = (Inr (), lg) \<and>
         integritycheck env a lg = (Inr True, lg @ [(INFO, name a @ '' Integrity OK'')])"
proof -
  have d: "dispatch env a lg = (Inr (), lg)"
    using assms by (simp add: dispatch_def)
  from integritycheck_ok [OF d] d show ?thesis by simp
qed

theorem other_extension_passes_unchecked_witness:
  "extension (activity_named ''RIDE.FIT'') \<noteq> ''fit'' \<and>
   extension (activity_named ''RIDE.FIT'') \<noteq> ''gpx'' \<and>
   FitFile sample_env (fileobj (activity_named ''RIDE.FIT'')) =
     Inl (FitHeaderError ''Invalid .FIT File Header'') \<and>
   integritycheck sample_env (activity_named ''RIDE.FIT'') [] =
     (Inr True, [(INFO, ''RIDE.FIT Integrity OK'')])"
proof -
  have e1: "extension (activity_named ''RIDE.FIT'') \<noteq> ''fit''"
    and e2: "extension (activity_named ''RIDE.FIT'') \<noteq> ''gpx''"
    by (simp_all add: extension_RIDE_FIT)
  from other_extension_passes_unchecked [OF e1 e2, of sample_env "[]"] e1 e2
  show ?thesis by (simp add: activity_named_def sample_env_def placeholder_def)
qed

lemma check_fit_constructor_raises:
  "FitFile env (fileobj a) = Inl e \<Longrightarrow> \<forall>d. e \<noteq> FitHeaderError d \<Longrightarrow>
   check_fit env a lg = (Inl e, lg)"
  by (cases e) (simp_all add: check_fit_def)

lemma empty_fit_eof:
  "FitFile sample_env (fileobj empty_fit) =
     Inl (FitEOFError ''Tried to read 12 bytes from .FIT file but got 0'')"
  by code_simp

lemma extension_empty_fit: "extension empty_fit = ''fit''"
  by (simp add: extension_def empty_fit_def)

text \<open>
  C5. When \<^verbatim>\<open>FitFile(fileobj)\<close> raises FitHeaderError, \<^verbatim>\<open>check_fit\<close> raises
  ActivityDefective with the detail "name truncated" and the evaluator returns False. The
  first \<^verbatim>\<open>try\<close> catches that class only: any other exception of the constructor leaves
  \<^verbatim>\<open>check_fit\<close> as it is, and the FitEOFError that fitparse raises on a zero-length file
  leaves the evaluator too and ends the loop of \<^verbatim>\<open>main\<close>, with no Truncated failure and
  no verdict. The second \<^verbatim>\<open>try\<close> does name FitEOFError.
\<close>

theorem check_fit_constructor_error:
  "(FitFile env (fileobj a) = Inl (FitHeaderError d) \<longrightarrow>
      check_fit env a lg = (Inl (ActivityDefective (name a @ '' truncated'')), lg) \<and>
      (extension a = ''fit'' \<longrightarrow>
         integritycheck env a lg =
           (Inr False, lg @ [(ERROR, name a @ '' '' @ name a @ '' truncated'')]))) \<and>
   (FitFile env (fileobj a) = Inl e \<and> (\<forall>d. e \<noteq> FitHeaderError d) \<longrightarrow>
      check_fit env a lg = (Inl e, lg)) \<and>
   (FitFile env (fileobj a) = Inl (FitEOFError d) \<and> extension a = ''fit'' \<longrightarrow>
      integritycheck env a lg = (Inl (FitEOFError d), lg) \<and>
      check_streams env (a # rest) lg = (Inl (FitEOFError d), lg))"
proof -
  have header: "check_fit env a lg = (Inl (ActivityDefective (name a @ '' truncated'')), lg)"
    if "FitFile env (fileobj a) = Inl (FitHeaderError d)"
    using that by (rule check_fit_header)
  have verdict: "integritycheck env a lg =
      (Inr False, lg @ [(ERROR, name a @ '' '' @ name a @ '' truncated'')])"
    if "FitFile env (fileobj a) = Inl (FitHeaderError d)" and "extension a = ''fit''"
  proof (rule integritycheck_defective)
    show "dispatch env a lg = (Inl (ActivityDefective (name a @ '' truncated'')), lg)"
      using that header by (simp add: dispatch_def)
  qed
  have other: "check_fit env a lg = (Inl e, lg)"
    if "FitFile env (fileobj a) = Inl e" and "\<forall>d. e \<noteq> FitHeaderError d"
    using that by (rule check_fit_constructor_raises)
  have eof: "integritycheck env a lg = (Inl (FitEOFError d), lg) \<and>
      check_streams env (a # rest) lg = (Inl (FitEOFError d), lg)"
    if f: "FitFile env (fileobj a) = Inl (FitEOFError d)" and x: "extension a = ''fit''"
  proof -
    have "check_fit env a lg = (Inl (FitEOFError d), lg)"
      using f by (intro check_fit_constructor_raises) simp_all
    then have "dispatch env a lg = (Inl (FitEOFError d), lg)"
      using x by (simp add: dispatch_def)
    then have "integritycheck env a lg = (Inl (FitEOFError d), lg)"
      by (rule integritycheck_raises) simp
    then show ?thesis by simp
  qed
  from header verdict other eof show ?thesis by blast
qed

theorem check_fit_constructor_error_witness:
  "FitFile sample_env (fileobj empty_fit) =
     Inl (FitEOFError ''Tried to read 12 bytes from .FIT file but got 0'') \<and>
   extension empty_fit = ''fit'' \<and>
   check_fit sample_env empty_fit [] =
     (Inl (FitEOFError ''Tried to read 12 bytes from .FIT file but got 0''), []) \<and>
   integritycheck sample_env empty_fit [] =
     (Inl (FitEOFError ''Tried to read 12 bytes from .FIT file but got 0''), []) \<and>
   check_streams sample_env [empty_fit, activity_named ''ride1.fit''] [] =
     (Inl (FitEOFError ''Tried to read 12 bytes from .FIT file but got 0''), []) \<and>
   integritycheck sample_env (activity_named ''ride1.fit'') [] =
     (Inr False, [(ERROR, ''ride1.fit ride1.fit truncated'')])"
proof -
  let ?d = "''Tried to read 12 bytes from .FIT file but got 0''"
  have h: "FitFile sample_env (fileobj (activity_named ''ride1.fit'')) =
      Inl (FitHeaderError ''Invalid .FIT File Header'')"
    by (simp add: sample_env_def activity_named_def placeholder_def)
  have n: "\<forall>d. FitEOFError ?d \<noteq> FitHeaderError d"
    by simp
  from check_fit_constructor_error
      [of sample_env empty_fit ?d "[]" "FitEOFError ?d" "[activity_named ''ride1.fit'']"]
    check_fit_constructor_error
      [of sample_env "activity_named ''ride1.fit''" "''Invalid .FIT File Header''" "[]"
        "FitHeaderError ''Invalid .FIT File Header''" "[]"]
    empty_fit_eof extension_empty_fit extension_ride1_fit h n
  show ?thesis by (simp add: activity_named_def)
qed

text \<open>
  C6. When the bytes are read, decode, and \<^verbatim>\<open>gpxpy.parse\<close> raises GPXXMLSyntaxException with a
  message, \<^verbatim>\<open>check_gpx\<close> raises ActivityDefective with the detail "name - message",
  and the evaluator, which sends the extension \<^verbatim>\<open>gpx\<close> to this checker, logs the error
  and returns False.
\<close>

theorem check_gpx_syntax_error:
  assumes "getvalue (fileobj a) = Inr bytes"
    and "decode_utf8 env bytes = Inr doc"
    and "gpxpy_parse env doc = Inl (GPXXMLSyntaxException err)"
  shows "check_gpx env a lg = (Inl (ActivityDefective (name a @ '' - '' @ err)), lg) \<and>
         (extension a = ''gpx'' \<longrightarrow>
            integritycheck env a lg =
              (Inr False, lg @ [(ERROR, name a @ '' '' @ name a @ '' - '' @ err)]))"
proof -
  have "gpx_load env a = Inl (GPXXMLSyntaxException err)"
    using assms by (simp add: gpx_load_def)
  then have c: "check_gpx env a lg = (Inl (ActivityDefective (name a @ '' - '' @ err)), lg)"
    by (rule check_gpx_syntax)
  moreover have "integritycheck env a lg =
      (Inr False, lg @ [(ERROR, name a @ '' '' @ name a @ '' - '' @ err)])"
    if "extension a = ''gpx''"
  proof -
    have "extension a \<noteq> ''fit''" using that by simp
    then have "dispatch env a lg = (Inl (ActivityDefective (name a @ '' - '' @ err)), lg)"
      using that c by (simp add: dispatch_def)
    from integritycheck_defective [OF this] show ?thesis by simp
  qed
  ultimately show ?thesis by simp
qed

theorem check_gpx_syntax_error_witness:
  "getvalue (fileobj (activity_named ''course.gpx'')) = Inr placeholder \<and>
   decode_utf8 (gpx_env (Inl (GPXXMLSyntaxException mismatched_tag))) placeholder = Inr () \<and>
   gpxpy_parse (gpx_env (Inl (GPXXMLSyntaxException mismatched_tag))) () =
     Inl (GPXXMLSyntaxException mismatched_tag) \<and>
   extension (activity_named ''course.gpx'') = ''gpx'' \<and>
   check_gpx (gpx_env (Inl (GPXXMLSyntaxException mismatched_tag)))
       (activity_named ''course.gpx'') [] =
     (Inl (ActivityDefective (''course.gpx - '' @ mismatched_tag)), []) \<and>
   integritycheck (gpx_env (Inl (GPXXMLSyntaxException mismatched_tag)))
       (activity_named ''course.gpx'') [] =
     (Inr False, [(ERROR, ''course.gpx course.gpx - '' @ mismatched_tag)])"
proof -
  let ?env = "gpx_env (Inl (GPXXMLSyntaxException mismatched_tag))"
  have g: "getvalue (fileobj (activity_named ''course.gpx'')) = Inr placeholder"
    by (simp add: getvalue_def activity_named_def)
  have d: "decode_utf8 ?env placeholder = Inr ()"
    by (simp add: gpx_env_def sample_env_def)
  have p: "gpxpy_parse ?env () = Inl (GPXXMLSyntaxException mismatched_tag)"
    by (simp add: gpx_env_def)
  from check_gpx_syntax_error [OF g d p, of "[]"] g d p extension_course_gpx
  show ?thesis by (simp add: activity_named_def)
qed

subsection \<open>Exceptions at the evaluator and in the batch\<close>

lemma check_streams_append:
  "check_streams env xs lg = (Inr (), lg1) \<Longrightarrow>
   check_streams env (xs @ ys) lg = check_streams env ys lg1"
proof (induction xs arbitrary: lg)
  case Nil
  then show ?case by simp
next
  case (Cons x xs)
  then show ?case
    by (cases "integritycheck env x lg") (auto split: sum.splits)
qed

lemma main_streams:
  "read_streams env targets [] (LOG_debug (''CPU count: '' @ str_nat (cpu_count env)) lg) =
     (Inr streams, lg1) \<Longrightarrow>
   main env targets lg = check_streams env streams lg1"
  by (simp add: main_def)

lemma eligible_samples:
  "eligible ''ride1.fit''" "\<not> eligible ''lap2.txt''" "eligible ''course.gpx''"
  "eligible ''course.GPX''"
  by code_simp+

lemma extension_course_GPX: "extension (activity_named ''course.GPX'') = ''GPX''"
  by (simp add: extension_def activity_named_def)

lemma str_nat_4: "str_nat 4 = ''4''"
  by code_simp

lemma dispatch_undecodable:
  "dispatch undecodable_env (activity_named ''course.gpx'') lg = (Inl UnicodeDecodeError, lg)"
  using extension_course_gpx
  by (simp add: dispatch_def check_gpx_def gpx_load_def getvalue_def activity_named_def
      undecodable_env_def)

lemma read_streams_sample:
  "read_streams undecodable_env [''lap2.txt'', ''course.gpx'', ''ride1.fit''] [] lg =
     (Inr ([] @ activity_named ''course.gpx'' # [activity_named ''ride1.fit'']),
      lg @ [(DEBUG, ''File skipped: lap2.txt'')])"
  by (simp add: eligible_samples LOG_debug_def activity_named_def undecodable_env_def
      sample_env_def)

text \<open>
  C4. ActivityDefective never leaves \<^verbatim>\<open>integritycheck\<close>: when the checker raises it,
  the evaluator logs the error line and returns False. Every other exception of the
  checker leaves the evaluator as it is, and \<^verbatim>\<open>main\<close> ends with it at that Activity:
  the Activities after it are not evaluated. A decode error of a .gpx file is one of these.
\<close>

theorem classified_caught_others_propagate:
  "fst (integritycheck env a lg) \<noteq> Inl (ActivityDefective m) \<and>
   (dispatch env a lg = (Inl (ActivityDefective m), lg') \<longrightarrow>
      integritycheck env a lg = (Inr False, lg' @ [(ERROR, name a @ '' '' @ m)])) \<and>
   (dispatch env a lg = (Inl e, lg') \<and> (\<forall>d. e \<noteq> ActivityDefective d) \<longrightarrow>
      integritycheck env a lg = (Inl e, lg') \<and>
      (\<forall>targets before rest lg0 lg1.
         read_streams env targets []
             (LOG_debug (''CPU count: '' @ str_nat (cpu_count env)) lg0) =
           (Inr (before @ a # rest), lg1) \<and>
         check_streams env before lg1 = (Inr (), lg) \<longrightarrow>
         main env targets lg0 = (Inl e, lg'))) \<and>
   (extension a = ''gpx'' \<and> getvalue (fileobj a) = Inr bytes \<and>
    decode_utf8 env bytes = Inl UnicodeDecodeError \<longrightarrow>
      integritycheck env a lg = (Inl UnicodeDecodeError, lg))"
proof -
  have p1: "fst (integritycheck env a lg) \<noteq> Inl (ActivityDefective m)"
    by (rule integritycheck_not_defective)
  have p2: "integritycheck env a lg = (Inr False, lg' @ [(ERROR, name a @ '' '' @ m)])"
    if "dispatch env a lg = (Inl (ActivityDefective m), lg')"
    using that by (rule integritycheck_defective)
  have p3: "integritycheck env a lg = (Inl e, lg') \<and>
      (\<forall>targets before rest lg0 lg1.
         read_streams env targets []
             (LOG_debug (''CPU count: '' @ str_nat (cpu_count env)) lg0) =
           (Inr (before @ a # rest), lg1) \<and>
         check_streams env before lg1 = (Inr (), lg) \<longrightarrow>
         main env targets lg0 = (Inl e, lg'))"
    if d: "dispatch env a lg = (Inl e, lg')" and n: "\<forall>d. e \<noteq> ActivityDefective d"
  proof -
    have i: "integritycheck env a lg = (Inl e, lg')"
      using d n by (rule integritycheck_raises)
    then have "check_streams env (a # rest) lg = (Inl e, lg')" for rest
      by simp
    then show ?thesis
      using i by (auto simp: main_streams check_streams_append)
  qed
  have p4: "integritycheck env a lg = (Inl UnicodeDecodeError, lg)"
    if x: "extension a = ''gpx''"
      and g: "getvalue (fileobj a) = Inr bytes"
      and u: "decode_utf8 env bytes = Inl UnicodeDecodeError"
  proof (rule integritycheck_raises)
    have "check_gpx env a lg = (Inl UnicodeDecodeError, lg)"
      using g u by (simp add: check_gpx_def gpx_load_def)
    then show "dispatch env a lg = (Inl UnicodeDecodeError, lg)"
      using x by (simp add: dispatch_def)
  qed simp
  from p1 p2 p3 p4 show ?thesis by blast
qed

theorem classified_caught_others_propagate_witness:
  "integritycheck undecodable_env (activity_named ''course.gpx'')
       [(DEBUG, ''CPU count: 4''), (DEBUG, ''File skipped: lap2.txt'')] =
     (Inl UnicodeDecodeError, [(DEBUG, ''CPU count: 4''), (DEBUG, ''File skipped: lap2.txt'')]) \<and>
   main undecodable_env [''lap2.txt'', ''course.gpx'', ''ride1.fit''] [] =
     (Inl UnicodeDecodeError, [(DEBUG, ''CPU count: 4''), (DEBUG, ''File skipped: lap2.txt'')])"
proof -
  let ?lg = "[(DEBUG, ''CPU count: 4''), (DEBUG, ''File skipped: lap2.txt'')]"
  let ?a = "activity_named ''course.gpx''"
  have cpu: "LOG_debug (''CPU count: '' @ str_nat (cpu_count undecodable_env)) [] =
      [(DEBUG, ''CPU count: 4'')]"
    by (simp add: LOG_debug_def undecodable_env_def sample_env_def str_nat_4)
  have r: "read_streams undecodable_env [''lap2.txt'', ''course.gpx'', ''ride1.fit''] []
      (LOG_debug (''CPU count: '' @ str_nat (cpu_count undecodable_env)) []) =
      (Inr ([] @ ?a # [activity_named ''ride1.fit'']), ?lg)"
    unfolding cpu using read_streams_sample [of "[(DEBUG, ''CPU count: 4'')]"] by simp
  have c: "check_streams undecodable_env [] ?lg = (Inr (), ?lg)"
    by simp
  have d: "dispatch undecodable_env ?a ?lg = (Inl UnicodeDecodeError, ?lg)"
    by (rule dispatch_undecodable)
  from classified_caught_others_propagate
    [of undecodable_env ?a ?lg "''''" ?lg UnicodeDecodeError] d r c
  show ?thesis by blast
qed

subsection \<open>Averages\<close>

lemma py_sum_ints: "py_sum acc (map Some xs) = Inr (acc + sum_list xs)"
  by (induction xs arbitrary: acc) simp_all

lemma average_Nil: "average env [] = Inl ZeroDivisionError"
  by (simp add: average_def round_div_def)

lemma average_ints:
  "xs \<noteq> [] \<Longrightarrow> \<bar>sum_list xs\<bar> < 2 ^ 50 \<Longrightarrow>
   average env (map Some xs) = Inr (round_half_even (sum_list xs) (length xs))"
  by (simp add: average_def round_div_def py_sum_ints)

lemma log_averages_no_power: "log_averages env nm [] h lg = (Inl ZeroDivisionError, lg)"
  by (simp add: log_averages_def average_def round_div_def)

lemma log_averages_no_hr:
  "\<bar>sum_list ps\<bar> < 2 ^ 50 \<Longrightarrow> log_averages env nm (map Some ps) [] lg = (Inl ZeroDivisionError, lg)"
  by (cases "ps = []") (simp_all add: log_averages_def average_Nil average_ints)

lemma log_averages_both:
  assumes "ps \<noteq> []" "hs \<noteq> []" "\<bar>sum_list ps\<bar> < 2 ^ 50" "\<bar>sum_list hs\<bar> < 2 ^ 50"
  shows "log_averages env nm (map Some ps) (map Some hs) lg =
     (Inr (), lg @ [(INFO, averages_line nm (round_half_even (sum_list ps) (length ps))
        (round_half_even (sum_list hs) (length hs)))])"
  using assms by (simp add: log_averages_def average_ints LOG_info_def)

lemma round_half_even_nearest:
  assumes "0 < n"
  shows "2 * \<bar>round_half_even s n * int n - s\<bar> \<le> int n"
proof -
  define q where "q = s div int n"
  define r where "r = s mod int n"
  have s: "s = q * int n + r"
    by (simp add: q_def r_def)
  have r: "0 \<le> r" "r < int n"
    using assms by (simp_all add: r_def)
  show ?thesis
    unfolding round_half_even_def Let_def q_def [symmetric] r_def [symmetric]
    using r by (auto simp: s algebra_simps)
qed

lemma no_power_readings: "fit_readings no_power_messages = ([], [Some 120, Some 122])"
  by (simp add: fit_readings_def no_power_messages_def fit_field_def)

text \<open>
  C1. \<^verbatim>\<open>check_fit\<close> does not swallow the division by zero. When the record messages
  were all read without a parser error and no field is named \<^verbatim>\<open>power\<close> (or the powers
  are integers and no field is named \<^verbatim>\<open>heart_rate\<close>), ZeroDivisionError leaves the
  checker, leaves the evaluator, and ends the loop of \<^verbatim>\<open>main\<close>. \<^verbatim>\<open>check_gpx\<close> has the
  \<^verbatim>\<open>except ZeroDivisionError\<close> clause that \<^verbatim>\<open>check_fit\<close> lacks.
\<close>

theorem check_fit_empty_readings_raise:
  assumes "FitFile env (fileobj a) = Inr fitfile"
    and "raised fitfile = None"
    and "fst (fit_readings (yielded fitfile)) = [] \<or>
         (snd (fit_readings (yielded fitfile)) = [] \<and>
          fst (fit_readings (yielded fitfile)) = map Some ps \<and> \<bar>sum_list ps\<bar> < 2 ^ 50)"
  shows "check_fit env a lg = (Inl ZeroDivisionError, lg) \<and>
         (extension a = ''fit'' \<longrightarrow>
            integritycheck env a lg = (Inl ZeroDivisionError, lg) \<and>
            check_streams env (a # rest) lg = (Inl ZeroDivisionError, lg))"
proof -
  have "log_averages env (name a) (fst (fit_readings (yielded fitfile)))
      (snd (fit_readings (yielded fitfile))) lg = (Inl ZeroDivisionError, lg)"
    using assms(3) by (auto simp: log_averages_no_power log_averages_no_hr)
  then have "fit_body env a fitfile lg = (Inl ZeroDivisionError, lg)"
    using assms(2) by (simp add: fit_body_def)
  then have c: "check_fit env a lg = (Inl ZeroDivisionError, lg)"
    using assms(1) by (simp add: check_fit_def)
  have "integritycheck env a lg = (Inl ZeroDivisionError, lg)" if "extension a = ''fit''"
  proof (rule integritycheck_raises)
    show "dispatch env a lg = (Inl ZeroDivisionError, lg)"
      using that c by (simp add: dispatch_def)
  qed simp
  with c show ?thesis by simp
qed

theorem check_fit_empty_readings_raise_witness:
  "check_fit (fit_env no_power_messages None) (activity_named ''ride1.fit'') [] =
     (Inl ZeroDivisionError, []) \<and>
   integritycheck (fit_env no_power_messages None) (activity_named ''ride1.fit'') [] =
     (Inl ZeroDivisionError, []) \<and>
   check_streams (fit_env no_power_messages None)
     [activity_named ''ride1.fit'', activity_named ''ride2.fit''] [] =
     (Inl ZeroDivisionError, [])"
proof -
  let ?env = "fit_env no_power_messages None"
  let ?ff = "\<lparr>yielded = no_power_messages, raised = None\<rparr>"
  have 1: "FitFile ?env (fileobj (activity_named ''ride1.fit'')) = Inr ?ff"
    by (simp add: fit_env_def)
  have 2: "raised ?ff = None" by simp
  have 3: "fst (fit_readings (yielded ?ff)) = [] \<or>
         (snd (fit_readings (yielded ?ff)) = [] \<and>
          fst (fit_readings (yielded ?ff)) = map Some [] \<and> \<bar>sum_list []\<bar> < (2::int) ^ 50)"
    by (simp add: no_power_readings)
  from check_fit_empty_readings_raise [OF 1 2 3, of "[]" "[activity_named ''ride2.fit'']"]
    extension_ride1_fit
  show ?thesis by simp
qed

subsection \<open>The .gpx checker\<close>

lemma for_each_skip:
  assumes "\<And>x s. body x s = Inr s"
  shows "for_each body xs s = Inr s"
  by (induction xs) (simp_all add: assms)

lemma gpx_readings_not_ride:
  assumes "\<not> contains ''ride'' (lower nm)"
  shows "gpx_readings env nm g = Inr ([], [])"
proof -
  have pt: "gpx_point env nm pt rd = Inr rd" for pt rd
    using assms by (simp add: gpx_point_def)
  have sg: "gpx_segment env nm sg rd = Inr rd" for sg rd
    unfolding gpx_segment_def by (rule for_each_skip) (rule pt)
  have tr: "gpx_track env nm tr rd = Inr rd" for tr rd
    unfolding gpx_track_def by (rule for_each_skip) (rule sg)
  show ?thesis
    unfolding gpx_readings_def by (rule for_each_skip) (rule tr)
qed

lemma check_gpx_loaded_no_power:
  assumes "gpx_load env a = Inr g" and "gpx_readings env (name a) g = Inr ([], hs)"
  shows "check_gpx env a lg = (Inr (), lg)"
  using assms by (simp add: check_gpx_def gpx_body_def log_averages_no_power)

lemma check_gpx_not_loaded:
  assumes "gpx_load env a = Inl e"
  shows "fst (check_gpx env a lg) \<noteq> Inr u \<and> snd (check_gpx env a lg) = lg"
  using assms by (cases e) (simp_all add: check_gpx_def)

lemma contains_Morning_Ride: "contains ''ride'' (lower ''Morning_Ride.gpx'')"
  by code_simp

lemma ride_line:
  "averages_line ''Morning_Ride.gpx''
     (round_half_even (sum_list [100, 150, 200]) (length [100, 150, 200 :: int]))
     (round_half_even (sum_list [120, 121]) (length [120, 121 :: int])) =
     ''Morning_Ride.gpx Average Power: 150, Average HR: 120''"
  by code_simp

text \<open>
  C2, as amended. For a .gpx file with "ride" in its name that parses, with integer
  readings \<open>ps\<close> (power) and \<open>hs\<close> (heart rate) whose sums are below \<open>2 ^ 50\<close> in
  magnitude: when both lists are non-empty the checker logs one line with
  \<^verbatim>\<open>round(sum(ps) / len(ps))\<close> and \<^verbatim>\<open>round(sum(hs) / len(hs))\<close>, each the nearest
  integer, the even one at a tie; when either list is empty it logs nothing. In both cases
  it returns without an exception.
\<close>

theorem ride_averages:
  assumes "contains ''ride'' (lower (name a))"
    and "gpx_load env a = Inr g"
    and "gpx_readings env (name a) g = Inr (ps, hs)"
    and "\<bar>sum_list ps\<bar> < 2 ^ 50" and "\<bar>sum_list hs\<bar> < 2 ^ 50"
  shows "(ps \<noteq> [] \<and> hs \<noteq> [] \<longrightarrow>
            check_gpx env a lg =
              (Inr (), lg @ [(INFO, averages_line (name a)
                 (round_half_even (sum_list ps) (length ps))
                 (round_half_even (sum_list hs) (length hs)))]) \<and>
            2 * \<bar>round_half_even (sum_list ps) (length ps) * int (length ps) - sum_list ps\<bar>
              \<le> int (length ps)) \<and>
         (ps = [] \<or> hs = [] \<longrightarrow> check_gpx env a lg = (Inr (), lg))"
proof -
  have body: "gpx_body env a g lg = log_averages env (name a) (map Some ps) (map Some hs) lg"
    using assms(3) by (simp add: gpx_body_def)
  have both: "check_gpx env a lg =
      (Inr (), lg @ [(INFO, averages_line (name a)
         (round_half_even (sum_list ps) (length ps))
         (round_half_even (sum_list hs) (length hs)))])"
    if "ps \<noteq> []" "hs \<noteq> []"
    using that assms(2,4,5) body by (simp add: check_gpx_def log_averages_both)
  have nearest: "2 * \<bar>round_half_even (sum_list ps) (length ps) * int (length ps) - sum_list ps\<bar>
      \<le> int (length ps)" if "ps \<noteq> []"
    using that by (intro round_half_even_nearest) simp
  have none: "check_gpx env a lg = (Inr (), lg)" if "ps = [] \<or> hs = []"
  proof -
    have "log_averages env (name a) (map Some ps) (map Some hs) lg = (Inl ZeroDivisionError, lg)"
      using that assms(4) log_averages_no_power [of env "name a" "map Some hs" lg]
        log_averages_no_hr [of ps env "name a" lg]
      by auto
    then show ?thesis
      using assms(2) body by (simp add: check_gpx_def)
  qed
  from both nearest none show ?thesis by blast
qed

theorem ride_averages_witness:
  "contains ''ride'' (lower (name (activity_named ''Morning_Ride.gpx''))) \<and>
   gpx_readings (gpx_env (Inr ride_gpx)) ''Morning_Ride.gpx'' ride_gpx =
     Inr ([100, 150, 200], [120, 121]) \<and>
   check_gpx (gpx_env (Inr ride_gpx)) (activity_named ''Morning_Ride.gpx'') [] =
     (Inr (), [(INFO, ''Morning_Ride.gpx Average Power: 150, Average HR: 120'')])"
proof -
  let ?env = "gpx_env (Inr ride_gpx)"
  let ?a = "activity_named ''Morning_Ride.gpx''"
  have nm: "name ?a = ''Morning_Ride.gpx''"
    by (simp add: activity_named_def)
  have 1: "contains ''ride'' (lower (name ?a))"
    unfolding nm by (rule contains_Morning_Ride)
  have 2: "gpx_load ?env ?a = Inr ride_gpx"
    by (simp add: gpx_load_def getvalue_def activity_named_def gpx_env_def sample_env_def)
  have 3: "gpx_readings ?env (name ?a) ride_gpx = Inr ([100, 150, 200], [120, 121])"
    unfolding nm by code_simp
  have 4: "\<bar>sum_list [100, 150, 200 :: int]\<bar> < 2 ^ 50"
    and 5: "\<bar>sum_list [120, 121 :: int]\<bar> < 2 ^ 50"
    by simp_all
  from ride_averages [OF 1 2 3 4 5, of "[]"] 1 3 ride_line
  show ?thesis by (simp add: nm)
qed

text \<open>
  C2 as stated fails: a ride with one power reading and no heart-rate reading has
  \<open>N = 1 > 0\<close>, and no average is reported.
\<close>

theorem ride_power_without_hr_unreported:
  "contains ''ride'' (lower (name (activity_named ''ride.gpx''))) \<and>
   gpx_load (gpx_env (Inr (one_point [power_el ''100'']))) (activity_named ''ride.gpx'') =
     Inr (one_point [power_el ''100'']) \<and>
   gpx_readings (gpx_env (Inr (one_point [power_el ''100''])))
     (name (activity_named ''ride.gpx'')) (one_point [power_el ''100'']) = Inr ([100], []) \<and>
   check_gpx (gpx_env (Inr (one_point [power_el ''100'']))) (activity_named ''ride.gpx'') [] =
     (Inr (), [])"
  by code_simp

text \<open>
  C7. When the lower-cased name does not contain "ride", the loops collect no reading,
  whatever the document holds; the checker logs nothing, and it returns normally exactly
  when the bytes decode and parse.
\<close>

theorem not_ride_skips_readings:
  assumes "\<not> contains ''ride'' (lower (name a))"
  shows "gpx_readings env (name a) g = Inr ([], []) \<and>
         (fst (check_gpx env a lg) = Inr ()) = (\<exists>g. gpx_load env a = Inr g) \<and>
         snd (check_gpx env a lg) = lg"
proof (cases "gpx_load env a")
  case (Inl e)
  with check_gpx_not_loaded [OF Inl, of lg "()"] gpx_readings_not_ride [OF assms]
  show ?thesis by simp
next
  case (Inr g')
  have "check_gpx env a lg = (Inr (), lg)"
    using Inr gpx_readings_not_ride [OF assms] by (rule check_gpx_loaded_no_power)
  with Inr gpx_readings_not_ride [OF assms] show ?thesis by simp
qed

theorem not_ride_skips_readings_witness:
  "\<not> contains ''ride'' (lower (name (activity_named ''course.gpx''))) \<and>
   gpx_readings (gpx_env (Inr (one_point [power_el ''12x''])))
     (name (activity_named ''course.gpx'')) (one_point [power_el ''12x'']) = Inr ([], []) \<and>
   gpx_readings (gpx_env (Inr (one_point [power_el ''12x''])))
     ''ride.gpx'' (one_point [power_el ''12x'']) = Inl ValueError \<and>
   check_gpx (gpx_env (Inr (one_point [power_el ''12x'']))) (activity_named ''course.gpx'') [] =
     (Inr (), [])"
proof -
  let ?env = "gpx_env (Inr (one_point [power_el ''12x'']))"
  let ?a = "activity_named ''course.gpx''"
  have n: "\<not> contains ''ride'' (lower (name ?a))"
    by code_simp
  have l: "gpx_load ?env ?a = Inr (one_point [power_el ''12x''])"
    by (simp add: gpx_load_def getvalue_def activity_named_def gpx_env_def sample_env_def)
  have v: "gpx_readings ?env ''ride.gpx'' (one_point [power_el ''12x'']) = Inl ValueError"
    by code_simp
  from not_ride_skips_readings [OF n, of ?env "one_point [power_el ''12x'']" "[]"] n l v
  show ?thesis by (auto simp: prod_eq_iff)
qed

subsection \<open>The batch driver\<close>

lemma read_streams_all:
  assumes "\<forall>f\<in>set targets. eligible f \<longrightarrow> (\<exists>bytes. read_file env f = Inr bytes)"
  shows "read_streams env targets streams lg =
     (Inr (streams @ map (activity_of env) (filter eligible targets)),
      lg @ map skipped_note (filter (\<lambda>f. \<not> eligible f) targets))"
  using assms
proof (induction targets arbitrary: streams lg)
  case Nil
  then show ?case by simp
next
  case (Cons f targets)
  show ?case
  proof (cases "eligible f")
    case True
    with Cons.prems obtain bytes where b: "read_file env f = Inr bytes"
      by auto
    have "read_streams env targets
        (streams @ [\<lparr>name = f, fileobj = \<lparr>buffer = bytes, position = 0, closed = False\<rparr>\<rparr>])
        lg =
      (Inr ((streams @
             [\<lparr>name = f, fileobj = \<lparr>buffer = bytes, position = 0, closed = False\<rparr>\<rparr>]) @
            map (activity_of env) (filter eligible targets)),
       lg @ map skipped_note (filter (\<lambda>f. \<not> eligible f) targets))"
      using Cons.prems by (intro Cons.IH) simp
    with True b show ?thesis
      by (simp add: activity_of_def)
  next
    case False
    have "read_streams env targets streams (LOG_debug (''File skipped: '' @ f) lg) =
      (Inr (streams @ map (activity_of env) (filter eligible targets)),
       LOG_debug (''File skipped: '' @ f) lg @
         map skipped_note (filter (\<lambda>f. \<not> eligible f) targets))"
      using Cons.prems by (intro Cons.IH) simp
    with False show ?thesis
      by (simp add: LOG_debug_def skipped_note_def)
  qed
qed

lemma endswith_iff: "endswith s suf = (\<exists>stem. s = stem @ suf)"
proof
  assume "endswith s suf"
  then have "s = take (length s - length suf) s @ suf"
    by (metis append_take_drop_id endswith_def)
  then show "\<exists>stem. s = stem @ suf" ..
next
  assume "\<exists>stem. s = stem @ suf"
  then show "endswith s suf"
    by (auto simp: endswith_def)
qed

text \<open>
  C8. When every given path that ends in ".fit" or ".gpx" (after lower-casing) can be
  read, \<^verbatim>\<open>main\<close> builds one Activity for each of these paths, in the order given, and
  for no other; every other path gets the debug line "File skipped: path"; and the
  evaluator runs over exactly the Activities built. \<open>eligible\<close> is the suffix test.
\<close>

theorem main_activities_are_eligible_paths:
  assumes "\<forall>f\<in>set targets. eligible f \<longrightarrow> (\<exists>bytes. read_file env f = Inr bytes)"
  shows "read_streams env targets [] lg =
           (Inr (map (activity_of env) (filter eligible targets)),
            lg @ map skipped_note (filter (\<lambda>f. \<not> eligible f) targets)) \<and>
         main env targets lg =
           check_streams env (map (activity_of env) (filter eligible targets))
             (lg @ (DEBUG, ''CPU count: '' @ str_nat (cpu_count env)) #
                map skipped_note (filter (\<lambda>f. \<not> eligible f) targets)) \<and>
         (\<forall>f. eligible f = (\<exists>stem. lower f = stem @ ''.fit'' \<or> lower f = stem @ ''.gpx''))"
proof -
  have "main env targets lg =
      check_streams env (map (activity_of env) (filter eligible targets))
        (lg @ (DEBUG, ''CPU count: '' @ str_nat (cpu_count env)) #
           map skipped_note (filter (\<lambda>f. \<not> eligible f) targets))"
    using read_streams_all [OF assms, of "[]"]
    by (simp add: main_def LOG_debug_def)
  moreover have "eligible f = (\<exists>stem. lower f = stem @ ''.fit'' \<or> lower f = stem @ ''.gpx'')"
    for f
    by (auto simp: eligible_def endswith_iff)
  ultimately show ?thesis
    using read_streams_all [OF assms, of "[]" lg] by simp
qed

theorem main_activities_are_eligible_paths_witness:
  "read_streams sample_env [''ride1.fit'', ''lap2.txt'', ''course.GPX''] [] [] =
     (Inr [activity_named ''ride1.fit'', activity_named ''course.GPX''],
      [(DEBUG, ''File skipped: lap2.txt'')]) \<and>
   main sample_env [''ride1.fit'', ''lap2.txt'', ''course.GPX''] [] =
     (Inr (), [(DEBUG, ''CPU count: 4''), (DEBUG, ''File skipped: lap2.txt''),
               (ERROR, ''ride1.fit ride1.fit truncated''),
               (INFO, ''course.GPX Integrity OK'')])"
proof -
  let ?targets = "[''ride1.fit'', ''lap2.txt'', ''course.GPX'']"
  have h: "\<forall>f\<in>set ?targets. eligible f \<longrightarrow> (\<exists>bytes. read_file sample_env f = Inr bytes)"
    by (simp add: sample_env_def)
  have a: "activity_of sample_env f = activity_named f" for f
    by (simp add: activity_of_def activity_named_def sample_env_def)
  have i1: "integritycheck sample_env (activity_named ''ride1.fit'') lg =
      (Inr False, lg @ [(ERROR, ''ride1.fit ride1.fit truncated'')])" for lg
    using integritycheck_defective [of sample_env "activity_named ''ride1.fit''" lg
        "''ride1.fit truncated''" lg] extension_ride1_fit
    by (simp add: dispatch_def check_fit_def sample_env_def activity_named_def placeholder_def)
  have i2: "integritycheck sample_env (activity_named ''course.GPX'') lg =
      (Inr True, lg @ [(INFO, ''course.GPX Integrity OK'')])" for lg
    using integritycheck_ok [of sample_env "activity_named ''course.GPX''" lg "()" lg]
      extension_course_GPX
    by (simp add: dispatch_def activity_named_def)
  have c: "cpu_count sample_env = 4"
    by (simp add: sample_env_def)
  note m = main_activities_are_eligible_paths [OF h, of "[]"]
  from m [THEN conjunct1] m [THEN conjunct2, THEN conjunct1]
  show ?thesis
    by (simp add: eligible_samples a i1 i2 c str_nat_4 skipped_note_def)
qed

subsection \<open>The content hash\<close>







end
